theory Spec2Isabelle
  imports Complex_Main
begin

section \<open>Values exchanged with the numeric libraries\<close>

text \<open>
  The module \<open>embeddings.py\<close> wraps three external libraries: a tokenizer and a
  bi-encoder model (transformers), and a pairwise model (sentence-transformers).
  Their code is not part of the repository, so each of them enters the model as a
  function that either returns a value or raises.

  What a call raises is either an instance of Python's \<open>Exception\<close> class, the only
  class the handlers of the module name (\<open>except Exception\<close>), or something outside
  that class (\<open>KeyboardInterrupt\<close>, \<open>SystemExit\<close>). The text carried is what
  \<open>traceback.format_exc()\<close> renders for it.
\<close>

datatype raised = Exception string | NonException string

fun is_Exception :: "raised \<Rightarrow> bool" where
  "is_Exception (Exception _) = True"
| "is_Exception (NonException _) = False"

fun format_exc :: "raised \<Rightarrow> string" where
  "format_exc (Exception tb) = tb"
| "format_exc (NonException tb) = tb"

text \<open>
  A float is carried around and never computed with, so a real number stands for it.
  A numpy array is its shape and its elements in row-major order; the result of
  \<open>tolist()\<close> is a float or a list of such results.
\<close>

record ndarray =
  shape :: "nat list"
  data :: "real list"

datatype pyval = PyFloat real | PyList "pyval list"

text \<open>\<open>np.array([])\<close>: one dimension, of size zero.\<close>

definition np_array_empty :: ndarray where
  "np_array_empty = \<lparr>shape = [0], data = []\<rparr>"

text \<open>\<open>ndarray.flatten()\<close>: the same elements in one dimension.\<close>

definition flatten :: "ndarray \<Rightarrow> ndarray" where
  "flatten a = \<lparr>shape = [length (data a)], data = data a\<rparr>"

text \<open>
  \<open>ndarray.tolist()\<close> nests one list per dimension. An array without dimensions holds
  exactly one element; the first equation is only there for element lists that
  no array has.
\<close>

fun tolist_of :: "nat list \<Rightarrow> real list \<Rightarrow> pyval" where
  "tolist_of [] [] = PyFloat 0"
| "tolist_of [] (x # _) = PyFloat x"
| "tolist_of (n # ns) d =
     PyList (map (\<lambda>i. tolist_of ns (take (prod_list ns) (drop (i * prod_list ns) d))) [0..<n])"

definition tolist :: "ndarray \<Rightarrow> pyval" where
  "tolist a = tolist_of (shape a) (data a)"

text \<open>
  The \<open>last_hidden_state\<close> of the model's output is a tensor with three dimensions
  (batch, token position, hidden unit), its elements in row-major order.
\<close>

record tensor3 =
  batch :: nat
  seq :: nat
  hidden :: nat
  elems :: "real list"

definition tensor_wf :: "tensor3 \<Rightarrow> bool" where
  "tensor_wf t \<longleftrightarrow> length (elems t) = batch t * seq t * hidden t"

definition tensor_at :: "tensor3 \<Rightarrow> nat \<Rightarrow> nat \<Rightarrow> nat \<Rightarrow> real" where
  "tensor_at t b s j = elems t ! ((b * seq t + s) * hidden t + j)"

text \<open>
  \<open>last_hidden_state[:, 0, :]\<close>: for every batch entry the row of token position 0.
  Index 0 is out of bounds when the tensor has no token position, and torch raises
  \<open>IndexError\<close>.
\<close>

definition first_token_rows :: "tensor3 \<Rightarrow> real list" where
  "first_token_rows t =
     concat (map (\<lambda>b. take (hidden t) (drop (b * seq t * hidden t) (elems t))) [0..<batch t])"

definition select_first_token :: "tensor3 \<Rightarrow> raised + ndarray" where
  "select_first_token t =
     (if seq t = 0 then Inl (Exception ''IndexError: index 0 is out of bounds for dimension 1 with size 0'')
      else Inr \<lparr>shape = [batch t, hidden t], data = first_token_rows t\<rparr>)"

section \<open>The external libraries\<close>

text \<open>
  A tokenizer is called with the text and \<open>max_length\<close> (the other arguments of the
  call, padding, truncation and \<open>return_tensors\<close>, are constants of the source); it
  returns the batch of token ids. A model maps that batch to its last hidden state.
  A cross-encoder's \<open>predict\<close> maps a list of pairs to an array of scores.
\<close>

type_synonym tokens = "nat list list"
type_synonym tokenizer = "string \<Rightarrow> int \<Rightarrow> raised + tokens"
type_synonym forward = "tokens \<Rightarrow> raised + tensor3"
type_synonym predict = "(string \<times> string) list \<Rightarrow> raised + ndarray"

record libraries =
  AutoTokenizer_from_pretrained :: "string \<Rightarrow> string option \<Rightarrow> raised + tokenizer"
  AutoModel_from_pretrained :: "string \<Rightarrow> string option \<Rightarrow> raised + forward"
  CrossEncoder_new :: "string \<Rightarrow> string \<Rightarrow> raised + predict"
  to_device :: "string \<Rightarrow> raised option"

text \<open>
  \<open>x.to(device)\<close> returns \<open>x\<close> placed on the device, or raises what the library
  raises for that device.
\<close>

definition move_to :: "libraries \<Rightarrow> 'a \<Rightarrow> string \<Rightarrow> raised + 'a" where
  "move_to libs x dev = (case to_device libs dev of Some e \<Rightarrow> Inl e | None \<Rightarrow> Inr x)"

section \<open>EmbeddingModelSingleton\<close>

record loaded_model =
  model_forward :: forward
  model_device :: string
  model_training :: bool

record encoder =
  emb_model_id :: string
  emb_embedding_size :: int
  emb_device :: string
  emb_max_input_length :: int
  emb_tokenizer :: tokenizer
  emb_model :: loaded_model

record encoder_args =
  arg_model_id :: string
  arg_embedding_size :: int
  arg_max_input_length :: int
  arg_device :: string
  arg_cache_dir :: "string option"

text \<open>
  \<open>__init__\<close> (lines 51 to 61). The tokenizer is loaded with the model identifier as
  its only argument; the model is loaded with
  \<open>cache_dir=str(cache_dir) if cache_dir else None\<close> (a \<open>Path\<close> is never falsy, so
  the test is the test for \<open>None\<close>), moved to the device and put into evaluation
  mode. A path is represented by the string \<open>str\<close> gives for it.
\<close>

definition EmbeddingModelSingleton_init :: "libraries \<Rightarrow> encoder_args \<Rightarrow> raised + encoder" where
  "EmbeddingModelSingleton_init libs a =
     (case AutoTokenizer_from_pretrained libs (arg_model_id a) None of
        Inl e \<Rightarrow> Inl e
      | Inr tok \<Rightarrow>
          (case AutoModel_from_pretrained libs (arg_model_id a)
                  (case arg_cache_dir a of None \<Rightarrow> None | Some p \<Rightarrow> Some p) of
             Inl e \<Rightarrow> Inl e
           | Inr fwd \<Rightarrow>
               (case move_to libs fwd (arg_device a) of
                  Inl e \<Rightarrow> Inl e
                | Inr fwd' \<Rightarrow>
                    Inr \<lparr>emb_model_id = arg_model_id a,
                         emb_embedding_size = arg_embedding_size a,
                         emb_device = arg_device a,
                         emb_max_input_length = arg_max_input_length a,
                         emb_tokenizer = tok,
                         emb_model = \<lparr>model_forward = fwd', model_device = arg_device a,
                                      model_training = False\<rparr>\<rparr>)))"

text \<open>
  The value \<open>__call__\<close> returns: a Python list (\<open>to_list\<close>) or a numpy array.
\<close>

datatype embeddings = AsList pyval | AsArray ndarray

definition empty_result :: "bool \<Rightarrow> embeddings" where
  "empty_result to_list = (if to_list then AsList (PyList []) else AsArray np_array_empty)"

text \<open>
  One call, with everything it leaves behind: what it returns or raises, the records
  it hands to \<open>logger.error\<close> in order, and the instance after the call.
\<close>

record call_result =
  outcome :: "raised + embeddings"
  logged :: "string list"
  self_after :: encoder

text \<open>Lines 122 to 128: the tokenizer call and the move to the device, in one \<open>try\<close>.\<close>

definition tokenize_step :: "libraries \<Rightarrow> encoder \<Rightarrow> string \<Rightarrow> raised + tokens" where
  "tokenize_step libs self input_text =
     (case emb_tokenizer self input_text (emb_max_input_length self) of
        Inl e \<Rightarrow> Inl e
      | Inr toks \<Rightarrow> move_to libs toks (emb_device self))"

definition tokenize_message :: "string \<Rightarrow> string" where
  "tokenize_message input_text = ''Error tokenizing the following input text: '' @ input_text"

definition forward_message :: "string \<Rightarrow> string \<Rightarrow> string" where
  "forward_message model_id input_text =
     ''Error generating embeddings for the following model_id: '' @ model_id
       @ '' and input text: '' @ input_text"

text \<open>Lines 145 to 149, after both \<open>try\<close> blocks: nothing raised here is caught.\<close>

definition pool :: "tensor3 \<Rightarrow> bool \<Rightarrow> raised + embeddings" where
  "pool t to_list =
     (case select_first_token t of
        Inl e \<Rightarrow> Inl e
      | Inr emb \<Rightarrow> Inr (if to_list then AsList (tolist (flatten emb)) else AsArray emb))"

definition EmbeddingModelSingleton_call ::
  "libraries \<Rightarrow> encoder \<Rightarrow> string \<Rightarrow> bool \<Rightarrow> call_result" where
  "EmbeddingModelSingleton_call libs self input_text to_list =
     (case tokenize_step libs self input_text of
        Inl e \<Rightarrow>
          (if is_Exception e
           then \<lparr>outcome = Inr (empty_result to_list),
                 logged = [format_exc e, tokenize_message input_text],
                 self_after = self\<rparr>
           else \<lparr>outcome = Inl e, logged = [], self_after = self\<rparr>)
      | Inr tokenized_text \<Rightarrow>
          (case model_forward (emb_model self) tokenized_text of
             Inl e \<Rightarrow>
               (if is_Exception e
                then \<lparr>outcome = Inr (empty_result to_list),
                      logged = [format_exc e, forward_message (emb_model_id self) input_text],
                      self_after = self\<rparr>
                else \<lparr>outcome = Inl e, logged = [], self_after = self\<rparr>)
           | Inr t \<Rightarrow> \<lparr>outcome = pool t to_list, logged = [], self_after = self\<rparr>))"

section \<open>CrossEncoderModelSingleton\<close>

record scorer =
  ce_model_id :: string
  ce_device :: string
  ce_model :: predict

definition CrossEncoderModelSingleton_init :: "libraries \<Rightarrow> string \<times> string \<Rightarrow> raised + scorer" where
  "CrossEncoderModelSingleton_init libs a =
     (case CrossEncoder_new libs (fst a) (snd a) of
        Inl e \<Rightarrow> Inl e
      | Inr p \<Rightarrow> Inr \<lparr>ce_model_id = fst a, ce_device = snd a, ce_model = p\<rparr>)"

text \<open>Lines 171 to 174: no \<open>try\<close>; whatever \<open>predict\<close> raises leaves the call.\<close>

definition CrossEncoderModelSingleton_call ::
  "scorer \<Rightarrow> (string \<times> string) list \<Rightarrow> raised + pyval" where
  "CrossEncoderModelSingleton_call self pairs =
     (case ce_model self pairs of
        Inl e \<Rightarrow> Inl e
      | Inr scores \<Rightarrow> Inr (tolist scores))"

section \<open>SingletonMeta\<close>

text \<open>
  Modelled from the spec: the metaclass \<open>SingletonMeta\<close> of \<open>src/base.py\<close>, which both
  classes use and which is not among the source files. The spec gives each type exactly
  one instance for the lifetime of the process, constructed on first use; a later
  construction request is ignored, whatever its configuration, and the existing instance
  is returned unchanged. A construction that raises stores nothing.
\<close>

definition SingletonMeta_call ::
  "('a \<Rightarrow> raised + 'i) \<Rightarrow> 'a \<Rightarrow> 'i option \<Rightarrow> (raised + 'i) \<times> 'i option" where
  "SingletonMeta_call init a slot =
     (case slot of
        Some inst \<Rightarrow> (Inr inst, Some inst)
      | None \<Rightarrow>
          (case init a of
             Inl e \<Rightarrow> (Inl e, None)
           | Inr inst \<Rightarrow> (Inr inst, Some inst)))"

text \<open>The instances of a process, one slot for each of the two classes.\<close>

record process =
  encoder_instance :: "encoder option"
  scorer_instance :: "scorer option"

definition EmbeddingModelSingleton_new ::
  "libraries \<Rightarrow> encoder_args \<Rightarrow> process \<Rightarrow> (raised + encoder) \<times> process" where
  "EmbeddingModelSingleton_new libs a p =
     (case SingletonMeta_call (EmbeddingModelSingleton_init libs) a (encoder_instance p) of
        (r, slot) \<Rightarrow> (r, p\<lparr>encoder_instance := slot\<rparr>))"

definition CrossEncoderModelSingleton_new ::
  "libraries \<Rightarrow> string \<times> string \<Rightarrow> process \<Rightarrow> (raised + scorer) \<times> process" where
  "CrossEncoderModelSingleton_new libs a p =
     (case SingletonMeta_call (CrossEncoderModelSingleton_init libs) a (scorer_instance p) of
        (r, slot) \<Rightarrow> (r, p\<lparr>scorer_instance := slot\<rparr>))"

section \<open>Measuring an output\<close>

text \<open>The number of floats an output holds: the leaves of a list, the size of an array.\<close>

fun floats_in :: "pyval \<Rightarrow> nat" where
  "floats_in (PyFloat _) = 1"
| "floats_in (PyList xs) = sum_list (map floats_in xs)"

fun output_size :: "embeddings \<Rightarrow> nat" where
  "output_size (AsList v) = floats_in v"
| "output_size (AsArray a) = length (data a)"

section \<open>A small installation, for evaluating the definitions\<close>

text \<open>
  A tokenizer that rejects one text, a model with hidden width 2 that rejects one batch of
  tokens, a pairwise model with one score per pair, and a second installation that is
  offline and holds the files of its models under \<open>/models\<close> only.
\<close>

definition example_tokenizer :: tokenizer where
  "example_tokenizer input_text max_length =
     (if input_text = ''bad'' then Inl (Exception ''UnicodeError'')
      else if input_text = ''stop'' then Inl (NonException ''KeyboardInterrupt'')
      else if input_text = ''long'' then Inr [[101, 7, 7, 102]]
      else Inr [[101, 102]])"

definition example_tensor :: tensor3 where
  "example_tensor = \<lparr>batch = 1, seq = 2, hidden = 2, elems = [1, 2, 3, 4]\<rparr>"

definition example_forward :: forward where
  "example_forward toks =
     (if toks = [[101, 7, 7, 102]] then Inl (Exception ''OutOfMemoryError'')
      else Inr example_tensor)"

definition example_predict :: predict where
  "example_predict pairs =
     (if pairs = [] then Inl (Exception ''ValueError'')
      else Inr \<lparr>shape = [length pairs], data = map (\<lambda>p. real (length (snd p))) pairs\<rparr>)"

definition example_libs :: libraries where
  "example_libs =
     \<lparr>AutoTokenizer_from_pretrained = (\<lambda>model_id cache_dir. Inr example_tokenizer),
      AutoModel_from_pretrained = (\<lambda>model_id cache_dir. Inr example_forward),
      CrossEncoder_new = (\<lambda>model_id dev. Inr example_predict),
      to_device = (\<lambda>dev. if dev = ''cpu'' then None else Some (Exception ''RuntimeError''))\<rparr>"

definition example_offline_libs :: libraries where
  "example_offline_libs =
     example_libs
       \<lparr>AutoTokenizer_from_pretrained :=
          (\<lambda>model_id cache_dir.
             if cache_dir = Some ''/models'' then Inr example_tokenizer
             else Inl (Exception ''OSError: no tokenizer files in the default cache'')),
        AutoModel_from_pretrained :=
          (\<lambda>model_id cache_dir.
             if cache_dir = Some ''/models'' then Inr example_forward
             else Inl (Exception ''OSError: no model files in the default cache''))\<rparr>"

definition example_encoder :: encoder where
  "example_encoder =
     \<lparr>emb_model_id = ''bert'', emb_embedding_size = 768, emb_device = ''cpu'',
      emb_max_input_length = 4, emb_tokenizer = example_tokenizer,
      emb_model = \<lparr>model_forward = example_forward, model_device = ''cpu'',
                   model_training = False\<rparr>\<rparr>"

definition example_scorer :: scorer where
  "example_scorer = \<lparr>ce_model_id = ''cross'', ce_device = ''cpu'', ce_model = example_predict\<rparr>"

definition example_small_encoder :: encoder where
  "example_small_encoder = example_encoder\<lparr>emb_embedding_size := 2\<rparr>"

definition example_args :: encoder_args where
  "example_args =
     \<lparr>arg_model_id = ''bert'', arg_embedding_size = 768, arg_max_input_length = 4,
      arg_device = ''cpu'', arg_cache_dir = Some ''/models''\<rparr>"

definition example_other_args :: encoder_args where
  "example_other_args =
     \<lparr>arg_model_id = ''other'', arg_embedding_size = 384, arg_max_input_length = 8,
      arg_device = ''cuda'', arg_cache_dir = None\<rparr>"

definition example_process :: process where
  "example_process = \<lparr>encoder_instance = None, scorer_instance = None\<rparr>"

text \<open>
  Tokenization and the forward pass succeed on a text; and the other way a call returns:
  an \<open>Exception\<close> reaches one of the two handlers.
\<close>

definition encode_succeeds :: "libraries \<Rightarrow> encoder \<Rightarrow> string \<Rightarrow> bool" where
  "encode_succeeds libs self input_text =
     (case tokenize_step libs self input_text of
        Inl e \<Rightarrow> False
      | Inr toks \<Rightarrow>
          (case model_forward (emb_model self) toks of Inl e \<Rightarrow> False | Inr t \<Rightarrow> True))"

definition handled_failure :: "libraries \<Rightarrow> encoder \<Rightarrow> string \<Rightarrow> bool" where
  "handled_failure libs self input_text =
     (case tokenize_step libs self input_text of
        Inl e \<Rightarrow> is_Exception e
      | Inr toks \<Rightarrow>
          (case model_forward (emb_model self) toks of
             Inl e \<Rightarrow> is_Exception e
           | Inr t \<Rightarrow> False))"



section \<open>Facts about lists, arrays and tensors\<close>

lemma tolist_of_flat: "length d = n \<Longrightarrow> tolist_of [n] d = PyList (map PyFloat d)"
proof -
  assume len: "length d = n"
  have "map (\<lambda>i. tolist_of [] (take (Suc 0) (drop i d))) [0..<n] = map PyFloat d"
  proof (rule nth_equalityI)
    show "length (map (\<lambda>i. tolist_of [] (take (Suc 0) (drop i d))) [0..<n]) = length (map PyFloat d)"
      using len by simp
  next
    fix i assume "i < length (map (\<lambda>i. tolist_of [] (take (Suc 0) (drop i d))) [0..<n])"
    then have i: "i < length d" using len by simp
    then have "drop i d = d ! i # drop (Suc i) d"
      by (simp add: Cons_nth_drop_Suc)
    then show "map (\<lambda>i. tolist_of [] (take (Suc 0) (drop i d))) [0..<n] ! i = map PyFloat d ! i"
      using i len by simp
  qed
  then show ?thesis by simp
qed

lemma tolist_flatten: "tolist (flatten a) = PyList (map PyFloat (data a))"
  by (simp add: tolist_def flatten_def tolist_of_flat del: tolist_of.simps)

lemma floats_in_flat: "floats_in (PyList (map PyFloat d)) = length d"
  by (induction d) simp_all

lemma concat_rows_length:
  "(\<And>b. b < n \<Longrightarrow> length (f b) = h) \<Longrightarrow> length (concat (map f [0..<n])) = n * h"
  by (induction n) simp_all

lemma concat_rows_nth:
  "(\<And>b. b < n \<Longrightarrow> length (f b) = h) \<Longrightarrow> b < n \<Longrightarrow> j < h \<Longrightarrow>
     concat (map f [0..<n]) ! (b * h + j) = f b ! j"
proof (induction n)
  case 0
  then show ?case by simp
next
  case (Suc n)
  have len: "length (concat (map f [0..<n])) = n * h"
    using Suc.prems(1) by (simp add: concat_rows_length)
  show ?case
  proof (cases "b < n")
    case True
    then have "b * h + j < n * h"
      using Suc.prems(3) by (metis add.commute mult_Suc less_le_trans add_less_cancel_left mult_le_mono1 Suc_leI)
    then show ?thesis
      using Suc True len by (simp add: nth_append)
  next
    case False
    then have "b = n" using Suc.prems(2) by simp
    then show ?thesis using len by (simp add: nth_append)
  qed
qed

lemma row_length:
  assumes "tensor_wf t" "0 < seq t" "b < batch t"
  shows "length (take (hidden t) (drop (b * seq t * hidden t) (elems t))) = hidden t"
proof -
  have "Suc b * seq t \<le> batch t * seq t"
    using assms(3) by (intro mult_le_mono1) simp
  moreover have "b * seq t + 1 \<le> Suc b * seq t"
    using assms(2) by simp
  ultimately have "b * seq t + 1 \<le> batch t * seq t"
    by (rule order_trans [rotated])
  then have "(b * seq t + 1) * hidden t \<le> batch t * seq t * hidden t"
    by (rule mult_le_mono1)
  then have "b * seq t * hidden t + hidden t \<le> length (elems t)"
    using assms(1) by (simp add: tensor_wf_def add_mult_distrib)
  then show ?thesis by simp
qed

lemma first_token_rows_length:
  "tensor_wf t \<Longrightarrow> 0 < seq t \<Longrightarrow> length (first_token_rows t) = batch t * hidden t"
  unfolding first_token_rows_def by (rule concat_rows_length) (rule row_length)

lemma first_token_rows_nth:
  assumes "tensor_wf t" "0 < seq t" "b < batch t" "j < hidden t"
  shows "first_token_rows t ! (b * hidden t + j) = tensor_at t b 0 j"
proof -
  let ?row = "\<lambda>b. take (hidden t) (drop (b * seq t * hidden t) (elems t))"
  have rows: "\<And>c. c < batch t \<Longrightarrow> length (?row c) = hidden t"
    using assms(1,2) by (rule row_length)
  have "concat (map ?row [0..<batch t]) ! (b * hidden t + j) = ?row b ! j"
    using rows assms(3,4) by (rule concat_rows_nth)
  moreover have "?row b ! j = elems t ! (b * seq t * hidden t + j)"
    using assms(4) rows [OF assms(3)] by simp
  ultimately show ?thesis
    by (simp add: first_token_rows_def tensor_at_def)
qed

section \<open>The three ways a call of the encoder ends\<close>

lemma call_tokenize_failed:
  "tokenize_step libs self txt = Inl (Exception tb) \<Longrightarrow>
     EmbeddingModelSingleton_call libs self txt to_list =
       \<lparr>outcome = Inr (empty_result to_list), logged = [tb, tokenize_message txt],
        self_after = self\<rparr>"
  by (simp add: EmbeddingModelSingleton_call_def)

lemma call_forward_failed:
  "tokenize_step libs self txt = Inr toks \<Longrightarrow>
   model_forward (emb_model self) toks = Inl (Exception tb) \<Longrightarrow>
     EmbeddingModelSingleton_call libs self txt to_list =
       \<lparr>outcome = Inr (empty_result to_list),
        logged = [tb, forward_message (emb_model_id self) txt], self_after = self\<rparr>"
  by (simp add: EmbeddingModelSingleton_call_def)

lemma call_succeeded:
  "tokenize_step libs self txt = Inr toks \<Longrightarrow>
   model_forward (emb_model self) toks = Inr t \<Longrightarrow>
     EmbeddingModelSingleton_call libs self txt to_list =
       \<lparr>outcome = pool t to_list, logged = [], self_after = self\<rparr>"
  by (simp add: EmbeddingModelSingleton_call_def)

lemma pool_list:
  "0 < seq t \<Longrightarrow> pool t True = Inr (AsList (PyList (map PyFloat (first_token_rows t))))"
  by (simp add: pool_def select_first_token_def tolist_flatten)

lemma pool_array:
  "0 < seq t \<Longrightarrow>
     pool t False = Inr (AsArray \<lparr>shape = [batch t, hidden t], data = first_token_rows t\<rparr>)"
  by (simp add: pool_def select_first_token_def)

lemma example_tokenize_ok:
  "tokenize_step example_libs example_encoder ''hello world'' = Inr [[101, 102]]"
  by (simp add: tokenize_step_def example_encoder_def example_tokenizer_def move_to_def
      example_libs_def)

lemma example_tokenize_bad:
  "tokenize_step example_libs example_encoder ''bad'' = Inl (Exception ''UnicodeError'')"
  by (simp add: tokenize_step_def example_encoder_def example_tokenizer_def)

lemma example_tokenize_long:
  "tokenize_step example_libs example_encoder ''long'' = Inr [[101, 7, 7, 102]]"
  by (simp add: tokenize_step_def example_encoder_def example_tokenizer_def move_to_def
      example_libs_def)

lemma example_forward_ok:
  "model_forward (emb_model example_encoder) [[101, 102]] = Inr example_tensor"
  by (simp add: example_encoder_def example_forward_def)

lemma example_forward_bad:
  "model_forward (emb_model example_encoder) [[101, 7, 7, 102]] = Inl (Exception ''OutOfMemoryError'')"
  by (simp add: example_encoder_def example_forward_def)

lemma example_tensor_wf: "tensor_wf example_tensor"
  by (simp add: tensor_wf_def example_tensor_def)

lemma example_rows: "first_token_rows example_tensor = [1, 2]"
  by (simp add: first_token_rows_def example_tensor_def)

lemma first_token_rows_single:
  "batch t = 1 \<Longrightarrow> first_token_rows t = take (hidden t) (elems t)"
  by (simp add: first_token_rows_def)

lemma call_self_after: "self_after (EmbeddingModelSingleton_call libs self txt f) = self"
  by (simp add: EmbeddingModelSingleton_call_def split: sum.splits)

lemma tokenize_step_embedding_size:
  "tokenize_step libs (self\<lparr>emb_embedding_size := n\<rparr>) txt = tokenize_step libs self txt"
  by (simp add: tokenize_step_def split: sum.splits)

lemma example_call_hello:
  "EmbeddingModelSingleton_call example_libs example_encoder ''hello world'' True
     = \<lparr>outcome = Inr (AsList (PyList [PyFloat 1, PyFloat 2])), logged = [],
        self_after = example_encoder\<rparr>"
proof -
  have "0 < seq example_tensor"
    by (simp add: example_tensor_def)
  then show ?thesis
    using call_succeeded [OF example_tokenize_ok example_forward_ok, of True]
    by (simp add: pool_list example_rows)
qed

lemma example_call_bad:
  "EmbeddingModelSingleton_call example_libs example_encoder ''bad'' to_list
     = \<lparr>outcome = Inr (empty_result to_list),
        logged = [''UnicodeError'', tokenize_message ''bad''],
        self_after = example_encoder\<rparr>"
  using example_tokenize_bad by (rule call_tokenize_failed)

lemma example_tensor_seq: "0 < seq example_tensor"
  by (simp add: example_tensor_def)

lemma SingletonMeta_call_first:
  "SingletonMeta_call init a None = (Inr inst, slot) \<Longrightarrow> init a = Inr inst \<and> slot = Some inst"
  by (simp add: SingletonMeta_call_def split: sum.splits)

lemma SingletonMeta_call_again: "SingletonMeta_call init a (Some inst) = (Inr inst, Some inst)"
  by (simp add: SingletonMeta_call_def)

lemma EmbeddingModelSingleton_init_fields:
  "EmbeddingModelSingleton_init libs a = Inr e \<Longrightarrow>
     emb_model_id e = arg_model_id a \<and> emb_embedding_size e = arg_embedding_size a
     \<and> emb_max_input_length e = arg_max_input_length a \<and> emb_device e = arg_device a"
  by (auto simp add: EmbeddingModelSingleton_init_def split: sum.splits)

lemma CrossEncoderModelSingleton_init_fields:
  "CrossEncoderModelSingleton_init libs a = Inr s \<Longrightarrow>
     ce_model_id s = fst a \<and> ce_device s = snd a"
  by (auto simp add: CrossEncoderModelSingleton_init_def split: sum.splits)

lemma example_init: "EmbeddingModelSingleton_init example_libs example_args = Inr example_encoder"
  by (simp add: EmbeddingModelSingleton_init_def example_libs_def example_args_def
      example_encoder_def move_to_def)

lemma example_scorer_init:
  "CrossEncoderModelSingleton_init example_libs (''cross'', ''cpu'') = Inr example_scorer"
  by (simp add: CrossEncoderModelSingleton_init_def example_libs_def example_scorer_def)

lemma example_small_tokenize_ok:
  "tokenize_step example_libs example_small_encoder ''hello world'' = Inr [[101, 102]]"
  using example_tokenize_ok by (simp add: example_small_encoder_def tokenize_step_embedding_size)

lemma example_small_tokenize_bad:
  "tokenize_step example_libs example_small_encoder ''bad'' = Inl (Exception ''UnicodeError'')"
  using example_tokenize_bad by (simp add: example_small_encoder_def tokenize_step_embedding_size)

lemma example_small_forward:
  "model_forward (emb_model example_small_encoder) toks = Inr t \<Longrightarrow> t = example_tensor"
  by (simp add: example_small_encoder_def example_encoder_def example_forward_def
      split: if_splits)

lemma example_small_forward_ok:
  "model_forward (emb_model example_small_encoder) [[101, 102]] = Inr example_tensor"
  using example_forward_ok by (simp add: example_small_encoder_def)

lemma example_small_call_array:
  "outcome (EmbeddingModelSingleton_call example_libs example_small_encoder ''hello world'' False)
     = Inr (AsArray \<lparr>shape = [1, 2], data = [1, 2]\<rparr>)"
  using call_succeeded [OF example_small_tokenize_ok example_small_forward_ok, of False]
    example_tensor_seq
  by (simp add: pool_array example_rows) (simp add: example_tensor_def)

lemma example_small_call_list:
  "outcome (EmbeddingModelSingleton_call example_libs example_small_encoder ''hello world'' True)
     = Inr (AsList (PyList [PyFloat 1, PyFloat 2]))"
  using call_succeeded [OF example_small_tokenize_ok example_small_forward_ok, of True]
    example_tensor_seq
  by (simp add: pool_list example_rows)

section \<open>Failure isolation of the encoder\<close>

text \<open>
  Claim C1. Whatever the text and the flag \<open>to_list\<close>: when the tokenizer step (the
  tokenizer call or the move of its result to the device) raises an \<open>Exception\<close>, or when
  it succeeds and the forward pass of the model raises an \<open>Exception\<close>, the call returns
  instead of raising. It returns the empty list when \<open>to_list\<close> is true and the empty
  array otherwise, after two records were handed to the logger: the traceback, and the
  message naming the input text (and the model identifier after a failed forward pass).
\<close>

theorem encode_isolates_failures:
  assumes "tokenize_step libs self input_text = Inl (Exception tb)
         \<or> (\<exists>toks. tokenize_step libs self input_text = Inr toks
               \<and> model_forward (emb_model self) toks = Inl (Exception tb))"
  shows "outcome (EmbeddingModelSingleton_call libs self input_text to_list)
           = Inr (if to_list then AsList (PyList []) else AsArray \<lparr>shape = [0], data = []\<rparr>)
       \<and> (logged (EmbeddingModelSingleton_call libs self input_text to_list)
             = [tb, tokenize_message input_text]
          \<or> logged (EmbeddingModelSingleton_call libs self input_text to_list)
             = [tb, forward_message (emb_model_id self) input_text])"
  using assms
  by (auto simp add: call_tokenize_failed call_forward_failed empty_result_def np_array_empty_def)

theorem encode_isolates_failures_witness:
  "outcome (EmbeddingModelSingleton_call example_libs example_encoder ''bad'' True)
     = Inr (AsList (PyList []))
   \<and> outcome (EmbeddingModelSingleton_call example_libs example_encoder ''long'' False)
     = Inr (AsArray \<lparr>shape = [0], data = []\<rparr>)"
proof -
  have a: "tokenize_step example_libs example_encoder ''bad'' = Inl (Exception ''UnicodeError'')
         \<or> (\<exists>toks. tokenize_step example_libs example_encoder ''bad'' = Inr toks
               \<and> model_forward (emb_model example_encoder) toks = Inl (Exception ''UnicodeError''))"
    by (simp add: example_tokenize_bad)
  have b: "tokenize_step example_libs example_encoder ''long'' = Inl (Exception ''OutOfMemoryError'')
         \<or> (\<exists>toks. tokenize_step example_libs example_encoder ''long'' = Inr toks
               \<and> model_forward (emb_model example_encoder) toks = Inl (Exception ''OutOfMemoryError''))"
    by (simp add: example_tokenize_long example_forward_bad)
  show ?thesis
    using encode_isolates_failures [OF a, of True] encode_isolates_failures [OF b, of False]
    by simp
qed

section \<open>Failures of the relevance scorer\<close>

text \<open>
  Claim C7. The scorer has no handler: whatever \<open>predict\<close> raises on a list of pairs is
  what the call raises, where the encoder turns a failure of its model into an empty
  result.
\<close>

theorem score_propagates_failure:
  "ce_model self pairs = Inl e \<Longrightarrow> CrossEncoderModelSingleton_call self pairs = Inl e"
  by (simp add: CrossEncoderModelSingleton_call_def)

theorem score_propagates_failure_witness:
  "ce_model example_scorer [] = Inl (Exception ''ValueError'')
   \<and> CrossEncoderModelSingleton_call example_scorer [] = Inl (Exception ''ValueError'')"
proof -
  have h: "ce_model example_scorer [] = Inl (Exception ''ValueError'')"
    by (simp add: example_scorer_def example_predict_def)
  show ?thesis using h score_propagates_failure [OF h] by simp
qed

section \<open>The length of an embedding\<close>

text \<open>
  Claim C2, as the spec states it, fails also when the configured \<open>embedding_size\<close> is the
  hidden width of the model. With \<open>to_list\<close> false the call returns the array that
  \<open>last_hidden_state[:, 0, :]\<close> gives, which keeps the batch dimension: its shape is
  \<open>(1, embedding_size)\<close>, not the shape \<open>(embedding_size)\<close> of the flat sequence, and its
  length, the size of its first dimension, is 1. Here the size is 2 on both sides.
\<close>

theorem encode_array_shape_counterexample:
  "emb_embedding_size example_small_encoder = int (hidden example_tensor)
   \<and> tokenize_step example_libs example_small_encoder ''hello world'' = Inr [[101, 102]]
   \<and> model_forward (emb_model example_small_encoder) [[101, 102]] = Inr example_tensor
   \<and> outcome (EmbeddingModelSingleton_call example_libs example_small_encoder ''hello world'' True)
       = Inr (AsList (PyList [PyFloat 1, PyFloat 2]))
   \<and> (case outcome (EmbeddingModelSingleton_call example_libs example_small_encoder
          ''hello world'' False) of
        Inl e \<Rightarrow> False
      | Inr (AsList v) \<Rightarrow> False
      | Inr (AsArray a) \<Rightarrow>
          shape a = [1, nat (emb_embedding_size example_small_encoder)]
          \<and> shape a \<noteq> [nat (emb_embedding_size example_small_encoder)]
          \<and> int (hd (shape a)) \<noteq> emb_embedding_size example_small_encoder)"
  by (simp add: example_small_tokenize_ok example_small_forward_ok example_small_call_list
      example_small_call_array)
    (simp add: example_small_encoder_def example_tensor_def)

text \<open>
  Claim C2, amended. Take an encoder whose configured \<open>embedding_size\<close> is positive and is
  the hidden width of its model: whenever tokenization and the forward pass succeed on the
  text, the last hidden state is a well-formed tensor with one batch entry, at least one
  token position and that hidden width. Then, for every text:
  \<^item> when tokenization and the forward pass succeed, the call returns \<open>embedding_size\<close>
    floats: a flat list of that length when \<open>to_list\<close> is true, and otherwise an array of
    shape \<open>(1, embedding_size)\<close>, not a flat one, with the same content;
  \<^item> on a handled failure the call returns the empty result;
  \<^item> whatever the call returns holds no float exactly on a handled failure, and it holds
    either no float or \<open>embedding_size\<close> floats: no partial vector.
\<close>

theorem encode_length_under_matching_width:
  assumes pos: "0 < emb_embedding_size self"
    and model: "\<forall>toks t. tokenize_step libs self input_text = Inr toks
        \<and> model_forward (emb_model self) toks = Inr t
      \<longrightarrow> tensor_wf t \<and> batch t = 1 \<and> 0 < seq t \<and> int (hidden t) = emb_embedding_size self"
  shows "(encode_succeeds libs self input_text \<longrightarrow>
            (\<exists>row. int (length row) = emb_embedding_size self
               \<and> outcome (EmbeddingModelSingleton_call libs self input_text True)
                   = Inr (AsList (PyList (map PyFloat row)))
               \<and> outcome (EmbeddingModelSingleton_call libs self input_text False)
                   = Inr (AsArray \<lparr>shape = [1, length row], data = row\<rparr>)))
       \<and> (handled_failure libs self input_text \<longrightarrow>
            outcome (EmbeddingModelSingleton_call libs self input_text to_list)
              = Inr (empty_result to_list))
       \<and> (\<forall>out. outcome (EmbeddingModelSingleton_call libs self input_text to_list) = Inr out
            \<longrightarrow> (output_size out = 0 \<longleftrightarrow> handled_failure libs self input_text)
              \<and> (output_size out = 0 \<or> int (output_size out) = emb_embedding_size self))"
proof (cases "tokenize_step libs self input_text")
  case (Inl e)
  show ?thesis
  proof (cases e)
    case (Exception tb)
    with Inl show ?thesis
      by (simp add: call_tokenize_failed encode_succeeds_def handled_failure_def
          empty_result_def np_array_empty_def)
  next
    case (NonException tb)
    with Inl show ?thesis
      by (simp add: EmbeddingModelSingleton_call_def encode_succeeds_def handled_failure_def)
  qed
next
  case (Inr toks)
  show ?thesis
  proof (cases "model_forward (emb_model self) toks")
    case (Inl e)
    show ?thesis
    proof (cases e)
      case (Exception tb)
      with Inl Inr show ?thesis
        by (simp add: call_forward_failed encode_succeeds_def handled_failure_def
            empty_result_def np_array_empty_def)
    next
      case (NonException tb)
      with Inl Inr show ?thesis
        by (simp add: EmbeddingModelSingleton_call_def encode_succeeds_def handled_failure_def)
    qed
  next
    case fwd: (Inr t)
    from model Inr fwd have t: "tensor_wf t" "batch t = 1" "0 < seq t"
      "int (hidden t) = emb_embedding_size self"
      by blast+
    let ?row = "take (hidden t) (elems t)"
    have rows: "first_token_rows t = ?row"
      using t(2) by (rule first_token_rows_single)
    have "length (first_token_rows t) = batch t * hidden t"
      using t(1,3) by (rule first_token_rows_length)
    then have len: "length ?row = hidden t"
      using rows t(2) by simp
    have width: "0 < hidden t"
      using pos t(4) by simp
    have list: "outcome (EmbeddingModelSingleton_call libs self input_text True)
        = Inr (AsList (PyList (map PyFloat ?row)))"
      using t(3) rows by (simp add: call_succeeded [OF Inr fwd] pool_list)
    have array: "outcome (EmbeddingModelSingleton_call libs self input_text False)
        = Inr (AsArray \<lparr>shape = [1, length ?row], data = ?row\<rparr>)"
      using t(2,3) rows len by (simp add: call_succeeded [OF Inr fwd] pool_array)
    have not_failed: "\<not> handled_failure libs self input_text"
      using Inr fwd by (simp add: handled_failure_def)
    have sizes: "output_size (AsList (PyList (map PyFloat ?row))) = hidden t"
      "output_size (AsArray \<lparr>shape = [1, length ?row], data = ?row\<rparr>) = hidden t"
      using len by (simp_all add: floats_in_flat del: floats_in.simps)
    have first: "\<exists>row. int (length row) = emb_embedding_size self
               \<and> outcome (EmbeddingModelSingleton_call libs self input_text True)
                   = Inr (AsList (PyList (map PyFloat row)))
               \<and> outcome (EmbeddingModelSingleton_call libs self input_text False)
                   = Inr (AsArray \<lparr>shape = [1, length row], data = row\<rparr>)"
      using list array len t(4) by (intro exI [of _ ?row]) simp
    have third: "\<forall>out. outcome (EmbeddingModelSingleton_call libs self input_text to_list) = Inr out
            \<longrightarrow> (output_size out = 0 \<longleftrightarrow> handled_failure libs self input_text)
              \<and> (output_size out = 0 \<or> int (output_size out) = emb_embedding_size self)"
    proof (cases to_list)
      case True
      then show ?thesis
        using list sizes(1) width t(4) not_failed by auto
    next
      case False
      then show ?thesis
        using array sizes(2) width t(4) not_failed by auto
    qed
    show ?thesis
      using first third not_failed by blast
  qed
qed

theorem encode_length_under_matching_width_witness:
  "outcome (EmbeddingModelSingleton_call example_libs example_small_encoder ''hello world'' True)
     = Inr (AsList (PyList [PyFloat 1, PyFloat 2]))
   \<and> outcome (EmbeddingModelSingleton_call example_libs example_small_encoder ''hello world'' False)
     = Inr (AsArray \<lparr>shape = [1, 2], data = [1, 2]\<rparr>)
   \<and> emb_embedding_size example_small_encoder = 2
   \<and> encode_succeeds example_libs example_small_encoder ''hello world''
   \<and> handled_failure example_libs example_small_encoder ''bad''
   \<and> outcome (EmbeddingModelSingleton_call example_libs example_small_encoder ''bad'' True)
     = Inr (AsList (PyList []))"
proof -
  have size: "emb_embedding_size example_small_encoder = 2"
    by (simp add: example_small_encoder_def)
  have pos: "0 < emb_embedding_size example_small_encoder"
    by (simp add: size)
  have model: "\<forall>toks t. tokenize_step example_libs example_small_encoder s = Inr toks
        \<and> model_forward (emb_model example_small_encoder) toks = Inr t
      \<longrightarrow> tensor_wf t \<and> batch t = 1 \<and> 0 < seq t
        \<and> int (hidden t) = emb_embedding_size example_small_encoder" for s
  proof (intro allI impI)
    fix toks t
    assume "tokenize_step example_libs example_small_encoder s = Inr toks
        \<and> model_forward (emb_model example_small_encoder) toks = Inr t"
    then have "t = example_tensor"
      using example_small_forward by blast
    then show "tensor_wf t \<and> batch t = 1 \<and> 0 < seq t
        \<and> int (hidden t) = emb_embedding_size example_small_encoder"
      by (simp add: tensor_wf_def example_tensor_def size)
  qed
  have ok: "encode_succeeds example_libs example_small_encoder ''hello world''"
    by (simp add: encode_succeeds_def example_small_tokenize_ok example_small_forward_ok)
  have bad: "handled_failure example_libs example_small_encoder ''bad''"
    by (simp add: handled_failure_def example_small_tokenize_bad)
  show ?thesis
    using encode_length_under_matching_width [OF pos model, of "''hello world''" True]
      encode_length_under_matching_width [OF pos model, of "''bad''" True]
      ok bad size example_small_call_list example_small_call_array
    by (simp add: empty_result_def)
qed

section \<open>First-token pooling\<close>

text \<open>
  Claim C3. When tokenization and the forward pass succeed and the last hidden state is a
  well-formed tensor with at least one token position, the embedding returned is the
  row of hidden units at token position 0, for each batch entry in turn: the float at
  position \<open>b * hidden + j\<close> of the output is the hidden unit \<open>j\<close> of token position 0 of
  batch entry \<open>b\<close>. No other token position contributes, so it is neither a mean nor a
  maximum over the positions. Moving the tensor to host memory and detaching it change
  no value, so the list and the array both hold exactly these floats.
\<close>

theorem encode_pools_first_token:
  assumes "tokenize_step libs self input_text = Inr toks"
    and "model_forward (emb_model self) toks = Inr t"
    and "tensor_wf t" and "0 < seq t"
  shows "outcome (EmbeddingModelSingleton_call libs self input_text True)
           = Inr (AsList (PyList (map PyFloat (first_token_rows t))))
       \<and> outcome (EmbeddingModelSingleton_call libs self input_text False)
           = Inr (AsArray \<lparr>shape = [batch t, hidden t], data = first_token_rows t\<rparr>)
       \<and> length (first_token_rows t) = batch t * hidden t
       \<and> (\<forall>b<batch t. \<forall>j<hidden t.
             first_token_rows t ! (b * hidden t + j) = tensor_at t b 0 j)"
  using assms
  by (simp add: call_succeeded pool_list pool_array first_token_rows_length
      first_token_rows_nth)

theorem encode_pools_first_token_witness:
  "outcome (EmbeddingModelSingleton_call example_libs example_encoder ''hello world'' True)
     = Inr (AsList (PyList [PyFloat 1, PyFloat 2]))
   \<and> tensor_at example_tensor 0 0 0 = 1 \<and> tensor_at example_tensor 0 0 1 = 2
   \<and> tensor_at example_tensor 0 1 0 = 3 \<and> tensor_at example_tensor 0 1 1 = 4"
proof -
  have "tensor_at example_tensor 0 0 0 = 1 \<and> tensor_at example_tensor 0 0 1 = 2
   \<and> tensor_at example_tensor 0 1 0 = 3 \<and> tensor_at example_tensor 0 1 1 = 4"
    by (simp add: tensor_at_def example_tensor_def)
  then show ?thesis
    using encode_pools_first_token
      [OF example_tokenize_ok example_forward_ok example_tensor_wf example_tensor_seq]
    by (simp add: example_rows)
qed

section \<open>The two representations\<close>

text \<open>
  Claim C5. For every text, the call with \<open>to_list\<close> false and the call with \<open>to_list\<close>
  true end the same way: if one raises, the other raises the same; if one returns an
  array, the other returns the flat list of the elements of that array, in the same
  order.
\<close>

theorem encode_list_and_array_agree:
  "case outcome (EmbeddingModelSingleton_call libs self input_text False) of
     Inl e \<Rightarrow> outcome (EmbeddingModelSingleton_call libs self input_text True) = Inl e
   | Inr r \<Rightarrow>
       (\<exists>a. r = AsArray a
          \<and> outcome (EmbeddingModelSingleton_call libs self input_text True)
              = Inr (AsList (PyList (map PyFloat (data a)))))"
  by (simp add: EmbeddingModelSingleton_call_def pool_def select_first_token_def
      tolist_flatten empty_result_def np_array_empty_def split: sum.splits)

theorem encode_list_and_array_agree_witness:
  "outcome (EmbeddingModelSingleton_call example_libs example_encoder ''hello world'' False)
     = Inr (AsArray \<lparr>shape = [1, 2], data = [1, 2]\<rparr>)
   \<and> outcome (EmbeddingModelSingleton_call example_libs example_encoder ''hello world'' True)
     = Inr (AsList (PyList [PyFloat 1, PyFloat 2]))"
proof -
  have "outcome (EmbeddingModelSingleton_call example_libs example_encoder ''hello world'' False)
     = Inr (AsArray \<lparr>shape = [1, 2], data = [1, 2]\<rparr>)"
    using call_succeeded [OF example_tokenize_ok example_forward_ok, of False]
      example_tensor_seq
    by (simp add: pool_array example_rows) (simp add: example_tensor_def)
  then show ?thesis
    using encode_list_and_array_agree [of example_libs example_encoder "''hello world''"]
    by simp
qed

section \<open>Repeated calls\<close>

text \<open>
  Claim C8. A call leaves the instance as it was, and a second call on the instance the
  first one left, with the same text and the same flag, ends as the first did and hands
  the same records to the logger. The tokenizer and the model are functions here: that is
  the deterministic numeric backend the claim supposes.
\<close>

theorem encode_is_repeatable:
  "self_after (EmbeddingModelSingleton_call libs self input_text to_list) = self
   \<and> outcome (EmbeddingModelSingleton_call libs
        (self_after (EmbeddingModelSingleton_call libs self input_text to_list))
        input_text to_list)
     = outcome (EmbeddingModelSingleton_call libs self input_text to_list)
   \<and> logged (EmbeddingModelSingleton_call libs
        (self_after (EmbeddingModelSingleton_call libs self input_text to_list))
        input_text to_list)
     = logged (EmbeddingModelSingleton_call libs self input_text to_list)"
  by (simp add: call_self_after)

theorem encode_is_repeatable_witness:
  "self_after (EmbeddingModelSingleton_call example_libs example_encoder ''bad'' True)
     = example_encoder
   \<and> outcome (EmbeddingModelSingleton_call example_libs
        (self_after (EmbeddingModelSingleton_call example_libs example_encoder ''bad'' True))
        ''hello world'' True)
     = Inr (AsList (PyList [PyFloat 1, PyFloat 2]))"
  using encode_is_repeatable [of example_libs example_encoder "''bad''" True]
  by (simp add: example_call_hello)

section \<open>The configured embedding size\<close>

text \<open>
  Claim C10. The call does not read the configured \<open>embedding_size\<close>: whatever number the
  instance holds there, a call on which tokenization and the forward pass succeed (with a
  well-formed last hidden state that has a token position) returns the first-token rows
  of the model, \<open>batch * hidden\<close> floats, and hands nothing to the logger. The length of
  the output is the width of the model, also when the configured size is another number.
\<close>

theorem embedding_size_is_never_used:
  assumes "tokenize_step libs self input_text = Inr toks"
    and "model_forward (emb_model self) toks = Inr t"
    and "tensor_wf t" and "0 < seq t"
  shows "outcome (EmbeddingModelSingleton_call libs (self\<lparr>emb_embedding_size := n\<rparr>)
            input_text True)
           = Inr (AsList (PyList (map PyFloat (first_token_rows t))))
       \<and> outcome (EmbeddingModelSingleton_call libs (self\<lparr>emb_embedding_size := n\<rparr>)
            input_text False)
           = Inr (AsArray \<lparr>shape = [batch t, hidden t], data = first_token_rows t\<rparr>)
       \<and> length (map PyFloat (first_token_rows t)) = batch t * hidden t
       \<and> logged (EmbeddingModelSingleton_call libs (self\<lparr>emb_embedding_size := n\<rparr>)
            input_text to_list) = []
       \<and> emb_embedding_size (self\<lparr>emb_embedding_size := n\<rparr>) = n"
proof -
  have tok: "tokenize_step libs (self\<lparr>emb_embedding_size := n\<rparr>) input_text = Inr toks"
    using assms(1) by (simp add: tokenize_step_embedding_size)
  have fwd: "model_forward (emb_model (self\<lparr>emb_embedding_size := n\<rparr>)) toks = Inr t"
    using assms(2) by simp
  show ?thesis
    using assms(3,4)
    by (simp add: call_succeeded [OF tok fwd] pool_list pool_array first_token_rows_length)
qed

theorem embedding_size_is_never_used_witness:
  "outcome (EmbeddingModelSingleton_call example_libs
       (example_encoder\<lparr>emb_embedding_size := 384\<rparr>) ''hello world'' True)
     = Inr (AsList (PyList [PyFloat 1, PyFloat 2]))
   \<and> logged (EmbeddingModelSingleton_call example_libs
       (example_encoder\<lparr>emb_embedding_size := 384\<rparr>) ''hello world'' True) = []
   \<and> emb_embedding_size (example_encoder\<lparr>emb_embedding_size := 384\<rparr>) = 384"
  using embedding_size_is_never_used
    [OF example_tokenize_ok example_forward_ok example_tensor_wf example_tensor_seq,
      of 384 True]
  by (simp add: example_rows)

section \<open>One instance for each class\<close>

text \<open>
  Claim C4. When the first construction of the encoder in a process succeeds, the
  instance holds the model identifier, embedding size, maximum input length and device of
  that construction; every later construction, with whatever libraries state and
  configuration, returns that same instance and leaves the process as it is. The same
  holds for the scorer with its model identifier and device.
\<close>

theorem singleton_keeps_first_configuration:
  "(encoder_instance p = None
      \<and> EmbeddingModelSingleton_new libs a p = (Inr e, p')
    \<longrightarrow> EmbeddingModelSingleton_new libs' a' p' = (Inr e, p')
      \<and> emb_model_id e = arg_model_id a \<and> emb_embedding_size e = arg_embedding_size a
      \<and> emb_max_input_length e = arg_max_input_length a \<and> emb_device e = arg_device a)
   \<and> (scorer_instance q = None
      \<and> CrossEncoderModelSingleton_new libs b q = (Inr s, q')
    \<longrightarrow> CrossEncoderModelSingleton_new libs' b' q' = (Inr s, q')
      \<and> ce_model_id s = fst b \<and> ce_device s = snd b)"
proof (intro conjI impI)
  assume h: "encoder_instance p = None \<and> EmbeddingModelSingleton_new libs a p = (Inr e, p')"
  then have "SingletonMeta_call (EmbeddingModelSingleton_init libs) a None
      = (Inr e, encoder_instance p')"
    by (auto simp add: EmbeddingModelSingleton_new_def split: prod.splits)
  then have init: "EmbeddingModelSingleton_init libs a = Inr e"
    and slot: "encoder_instance p' = Some e"
    by (simp_all add: SingletonMeta_call_first)
  show "EmbeddingModelSingleton_new libs' a' p' = (Inr e, p')"
    using slot by (simp add: EmbeddingModelSingleton_new_def SingletonMeta_call_again)
  show "emb_model_id e = arg_model_id a" "emb_embedding_size e = arg_embedding_size a"
    "emb_max_input_length e = arg_max_input_length a" "emb_device e = arg_device a"
    using EmbeddingModelSingleton_init_fields [OF init] by simp_all
next
  assume h: "scorer_instance q = None \<and> CrossEncoderModelSingleton_new libs b q = (Inr s, q')"
  then have "SingletonMeta_call (CrossEncoderModelSingleton_init libs) b None
      = (Inr s, scorer_instance q')"
    by (auto simp add: CrossEncoderModelSingleton_new_def split: prod.splits)
  then have init: "CrossEncoderModelSingleton_init libs b = Inr s"
    and slot: "scorer_instance q' = Some s"
    by (simp_all add: SingletonMeta_call_first)
  show "CrossEncoderModelSingleton_new libs' b' q' = (Inr s, q')"
    using slot by (simp add: CrossEncoderModelSingleton_new_def SingletonMeta_call_again)
  show "ce_model_id s = fst b" "ce_device s = snd b"
    using CrossEncoderModelSingleton_init_fields [OF init] by simp_all
qed

theorem singleton_keeps_first_configuration_witness:
  "EmbeddingModelSingleton_new example_libs example_args example_process
     = (Inr example_encoder, example_process\<lparr>encoder_instance := Some example_encoder\<rparr>)
   \<and> EmbeddingModelSingleton_new example_offline_libs example_other_args
       (example_process\<lparr>encoder_instance := Some example_encoder\<rparr>)
     = (Inr example_encoder, example_process\<lparr>encoder_instance := Some example_encoder\<rparr>)
   \<and> emb_model_id example_encoder = ''bert'' \<and> emb_embedding_size example_encoder = 768
   \<and> CrossEncoderModelSingleton_new example_libs (''cross'', ''cpu'') example_process
     = (Inr example_scorer, example_process\<lparr>scorer_instance := Some example_scorer\<rparr>)
   \<and> CrossEncoderModelSingleton_new example_offline_libs (''other'', ''cuda'')
       (example_process\<lparr>scorer_instance := Some example_scorer\<rparr>)
     = (Inr example_scorer, example_process\<lparr>scorer_instance := Some example_scorer\<rparr>)
   \<and> ce_model_id example_scorer = ''cross''"
proof -
  have e: "EmbeddingModelSingleton_new example_libs example_args example_process
     = (Inr example_encoder, example_process\<lparr>encoder_instance := Some example_encoder\<rparr>)"
    by (simp add: EmbeddingModelSingleton_new_def SingletonMeta_call_def example_init
        example_process_def)
  have s: "CrossEncoderModelSingleton_new example_libs (''cross'', ''cpu'') example_process
     = (Inr example_scorer, example_process\<lparr>scorer_instance := Some example_scorer\<rparr>)"
    by (simp add: CrossEncoderModelSingleton_new_def SingletonMeta_call_def example_scorer_init
        example_process_def)
  have n: "encoder_instance example_process = None" "scorer_instance example_process = None"
    by (simp_all add: example_process_def)
  show ?thesis
    using singleton_keeps_first_configuration
      [of example_process example_libs example_args example_encoder
        "example_process\<lparr>encoder_instance := Some example_encoder\<rparr>"
        example_offline_libs example_other_args
        example_process "(''cross'', ''cpu'')" example_scorer
        "example_process\<lparr>scorer_instance := Some example_scorer\<rparr>"
        "(''other'', ''cuda'')"]
      e s n
    by (simp add: example_args_def)
qed

section \<open>Scores of the relevance scorer\<close>




section \<open>Construction of the encoder\<close>

text \<open>
  Claim C9 says that the tokenizer and the model are both loaded from the cache location
  when one is given. The model is; the tokenizer is loaded without the cache location.
  In an installation whose files are under \<open>/models\<close> only, construction with that cache
  location fails in the tokenizer's loader, which would have found the files there.
\<close>

theorem init_loads_tokenizer_without_cache_dir:
  "EmbeddingModelSingleton_init example_offline_libs example_args
     = Inl (Exception ''OSError: no tokenizer files in the default cache'')
   \<and> arg_cache_dir example_args = Some ''/models''
   \<and> AutoTokenizer_from_pretrained example_offline_libs (arg_model_id example_args)
        (arg_cache_dir example_args) = Inr example_tokenizer
   \<and> AutoModel_from_pretrained example_offline_libs (arg_model_id example_args)
        (arg_cache_dir example_args) = Inr example_forward"
  by (simp add: EmbeddingModelSingleton_init_def example_offline_libs_def example_libs_def
      example_args_def)

end
